theory Spec2Isabelle
  imports Main
begin

section \<open>Python values, dictionaries and exceptions\<close>

text \<open>
  The gateway of \<^verbatim>\<open>main.py\<close> moves Python dictionaries between three parties: the
  front-end (request bodies), the inference provider (JSON over HTTP) and a MongoDB
  collection (documents). The model keeps them as what they are: association lists from
  field names to values, in insertion order.

  A naive \<^verbatim>\<open>datetime\<close> is the record of its fields; time zones are not modelled.
\<close>

record datetime =
  year :: nat
  month :: nat
  day :: nat
  hour :: nat
  minute :: nat
  second :: nat
  microsecond :: nat

datatype pyval =
    PNone
  | PBool bool
  | PInt int
  | PFloat int int  \<comment> \<open>the decimal literal \<open>m * 10 ^ e\<close>, as JSON writes it\<close>
  | PStr string
  | PDatetime datetime
  | PList "pyval list"
  | PDict "(string \<times> pyval) list"

type_synonym dict = "(string \<times> pyval) list"

text \<open>
  The exceptions that can travel through the two handlers. The handlers of the source
  test two classes only, \<^verbatim>\<open>httpx.HTTPError\<close> and \<^verbatim>\<open>Exception\<close>; the class tests are
  the two predicates below. \<open>CancelledError\<close> stands for the exceptions that derive from
  \<^verbatim>\<open>BaseException\<close> but not from \<^verbatim>\<open>Exception\<close>.
\<close>

datatype exn =
    HTTPStatusError
  | TimeoutException
  | TransportError
  | KeyError string
  | AttributeError
  | JSONDecodeError
  | PyMongoError
  | OtherException string
  | CancelledError

fun isinstance_HTTPError :: "exn \<Rightarrow> bool" where
  "isinstance_HTTPError HTTPStatusError = True"
| "isinstance_HTTPError TimeoutException = True"
| "isinstance_HTTPError TransportError = True"
| "isinstance_HTTPError _ = False"

fun isinstance_Exception :: "exn \<Rightarrow> bool" where
  "isinstance_Exception CancelledError = False"
| "isinstance_Exception _ = True"

text \<open>\<^verbatim>\<open>d[k]\<close> raises \<^verbatim>\<open>KeyError\<close> on a missing key.\<close>

definition getitem :: "dict \<Rightarrow> string \<Rightarrow> exn + pyval" where
  "getitem d k = (case map_of d k of None \<Rightarrow> Inl (KeyError k) | Some v \<Rightarrow> Inr v)"

text \<open>
  \<^verbatim>\<open>x.get(k, default)\<close>: defined on dictionaries only. Every other value that
  \<^verbatim>\<open>response.json()\<close> can return (a list, a string, a number, a boolean, \<^verbatim>\<open>None\<close>) has no
  attribute \<^verbatim>\<open>get\<close>.
\<close>

fun py_get :: "pyval \<Rightarrow> string \<Rightarrow> pyval \<Rightarrow> exn + pyval" where
  "py_get (PDict d) k dflt = Inr (case map_of d k of None \<Rightarrow> dflt | Some v \<Rightarrow> v)"
| "py_get _ k dflt = Inl AttributeError"

text \<open>\<^verbatim>\<open>d[k] = v\<close>: an existing field keeps its place, a new one goes last.\<close>

fun setitem :: "string \<Rightarrow> pyval \<Rightarrow> dict \<Rightarrow> dict" where
  "setitem k v [] = [(k, v)]"
| "setitem k v (p # ps) = (if fst p = k then (k, v) # ps else p # setitem k v ps)"

subsection \<open>Timestamps\<close>

text \<open>
  \<^verbatim>\<open>datetime.isoformat()\<close> of a naive datetime: \<^verbatim>\<open>YYYY-MM-DDTHH:MM:SS\<close>, followed by
  \<^verbatim>\<open>.ffffff\<close> when the microsecond field is not zero.
\<close>

definition digit :: "nat \<Rightarrow> char" where
  "digit n = ''0123456789'' ! (n mod 10)"

definition zpad2 :: "nat \<Rightarrow> string" where
  "zpad2 n = [digit (n div 10), digit n]"

definition zpad4 :: "nat \<Rightarrow> string" where
  "zpad4 n = [digit (n div 1000), digit (n div 100), digit (n div 10), digit n]"

definition zpad6 :: "nat \<Rightarrow> string" where
  "zpad6 n = [digit (n div 100000), digit (n div 10000), digit (n div 1000),
              digit (n div 100), digit (n div 10), digit n]"

definition isoformat :: "datetime \<Rightarrow> string" where
  "isoformat t =
     zpad4 (year t) @ ''-'' @ zpad2 (month t) @ ''-'' @ zpad2 (day t) @ ''T'' @
     zpad2 (hour t) @ '':'' @ zpad2 (minute t) @ '':'' @ zpad2 (second t) @
     (if microsecond t = 0 then [] else ''.'' @ zpad6 (microsecond t))"

text \<open>Naive datetimes compare field by field, the year first.\<close>

fun lex_less :: "nat list \<Rightarrow> nat list \<Rightarrow> bool" where
  "lex_less (a # as) (b # bs) = (a < b \<or> (a = b \<and> lex_less as bs))"
| "lex_less _ _ = False"

definition datetime_less :: "datetime \<Rightarrow> datetime \<Rightarrow> bool" where
  "datetime_less s t =
     lex_less [year s, month s, day s, hour s, minute s, second s, microsecond s]
              [year t, month t, day t, hour t, minute t, second t, microsecond t]"

section \<open>The request models\<close>

record ChatRequest =
  question :: string
  userId :: string
  messageId :: string
  userName :: string
  conversationId :: string
  questionTimestamp :: datetime

record FeedbackRequest =
  fb_question :: string
  fb_answer :: string
  fb_userId :: string
  fb_messageId :: string
  fb_conversationId :: string
  fb_feedback :: string
  fb_questionTimestamp :: datetime
  fb_answerTimestamp :: datetime

text \<open>\<^verbatim>\<open>request.dict()\<close>: the fields in declaration order.\<close>

definition ChatRequest_dict :: "ChatRequest \<Rightarrow> dict" where
  "ChatRequest_dict r =
     [(''question'', PStr (question r)),
      (''userId'', PStr (userId r)),
      (''messageId'', PStr (messageId r)),
      (''userName'', PStr (userName r)),
      (''conversationId'', PStr (conversationId r)),
      (''questionTimestamp'', PDatetime (questionTimestamp r))]"

definition FeedbackRequest_dict :: "FeedbackRequest \<Rightarrow> dict" where
  "FeedbackRequest_dict r =
     [(''question'', PStr (fb_question r)),
      (''answer'', PStr (fb_answer r)),
      (''userId'', PStr (fb_userId r)),
      (''messageId'', PStr (fb_messageId r)),
      (''conversationId'', PStr (fb_conversationId r)),
      (''feedback'', PStr (fb_feedback r)),
      (''questionTimestamp'', PDatetime (fb_questionTimestamp r)),
      (''answerTimestamp'', PDatetime (fb_answerTimestamp r))]"

section \<open>The outside world\<close>

text \<open>
  What the code reads from outside the process is a parameter of the model:
  \<^item> the module constants \<^verbatim>\<open>INSTRUCTIONS\<close> (a fixed system prompt, not ASCII) and
    \<^verbatim>\<open>AZURE_API_KEY\<close> (read from the process environment);
  \<^item> \<^verbatim>\<open>httpx.AsyncClient.post\<close>, which raises or returns a response; of the response
    the code uses \<^verbatim>\<open>raise_for_status()\<close>, decided by \<^verbatim>\<open>is_success\<close>, and \<^verbatim>\<open>json()\<close>,
    which raises or returns the decoded body;
  \<^item> \<^verbatim>\<open>datetime.utcnow()\<close>: the readings of the clock, in the order of the calls;
  \<^item> the failures of the MongoDB driver: each of \<^verbatim>\<open>insert_one\<close> and \<^verbatim>\<open>update_one\<close>
    either raises the given exception and leaves the collection alone, or works.
\<close>

record response =
  is_success :: bool
  json :: "exn + pyval"

record env =
  INSTRUCTIONS :: string
  AZURE_API_KEY :: string
  post :: "string \<Rightarrow> pyval \<Rightarrow> (string \<times> string) list \<Rightarrow> exn + response"
  utcnow :: "nat \<Rightarrow> datetime"
  insert_one_fault :: "exn option"
  update_one_fault :: "exn option"

text \<open>
  The state the code changes: the documents of \<^verbatim>\<open>db.conversations\<close>, in insertion
  order, and the records written through \<^verbatim>\<open>logger.error\<close> and \<^verbatim>\<open>logger.warning\<close>
  (the message prefix and the interpolated value). The \<^verbatim>\<open>_id\<close> that the driver adds
  to an inserted document is left out, so two inserts of the same dictionary are two
  equal elements of the list. Output of \<^verbatim>\<open>print\<close> and \<^verbatim>\<open>logger.info\<close> is not kept.
\<close>

datatype log_record =
    LogError string exn
  | LogWarning string pyval string

record world =
  collection :: "dict list"
  logged :: "log_record list"

definition logger :: "log_record \<Rightarrow> world \<Rightarrow> world" where
  "logger r w = w\<lparr>logged := logged w @ [r]\<rparr>"

subsection \<open>The collection\<close>

definition insert_one :: "env \<Rightarrow> world \<Rightarrow> dict \<Rightarrow> (exn + unit) \<times> world" where
  "insert_one E w doc =
     (case insert_one_fault E of
        Some e \<Rightarrow> (Inl e, w)
      | None \<Rightarrow> (Inr (), w\<lparr>collection := collection w @ [doc]\<rparr>))"

text \<open>
  \<^verbatim>\<open>update_one(filter, {"$set": chg})\<close> selects the first document in which every
  field of the filter has the given value, and assigns the fields of \<^verbatim>\<open>$set\<close> in it.
  Its result carries two counts: \<open>matched_count\<close>, the number of documents selected
  (0 or 1), and \<open>modified_count\<close>, the number of documents whose content changed. A
  \<^verbatim>\<open>$set\<close> that writes the values a document already holds selects that document and
  modifies nothing.
\<close>

record UpdateResult =
  matched_count :: nat
  modified_count :: nat

definition matches :: "dict \<Rightarrow> dict \<Rightarrow> bool" where
  "matches flt doc = list_all (\<lambda>(k, v). map_of doc k = Some v) flt"

definition apply_set :: "dict \<Rightarrow> dict \<Rightarrow> dict" where
  "apply_set chg doc = fold (\<lambda>(k, v). setitem k v) chg doc"

fun update_first :: "dict \<Rightarrow> dict \<Rightarrow> dict list \<Rightarrow> UpdateResult \<times> dict list" where
  "update_first flt chg [] = (\<lparr>matched_count = 0, modified_count = 0\<rparr>, [])"
| "update_first flt chg (d # ds) =
     (if matches flt d
      then (\<lparr>matched_count = 1,
             modified_count = (if apply_set chg d = d then 0 else 1)\<rparr>,
            apply_set chg d # ds)
      else (case update_first flt chg ds of (r, ds') \<Rightarrow> (r, d # ds')))"

definition update_one ::
  "env \<Rightarrow> world \<Rightarrow> dict \<Rightarrow> dict \<Rightarrow> (exn + UpdateResult) \<times> world" where
  "update_one E w flt chg =
     (case update_one_fault E of
        Some e \<Rightarrow> (Inl e, w)
      | None \<Rightarrow>
          (case update_first flt chg (collection w) of
             (r, ds) \<Rightarrow> (Inr r, w\<lparr>collection := ds\<rparr>)))"

section \<open>The chat path\<close>

definition AZURE_ENDPOINT :: string where
  "AZURE_ENDPOINT =
     ''https://najd-ml-sweden-c-hskon.swedencentral.inference.ml.azure.com/score''"

definition query_azure_endpoint :: "env \<Rightarrow> pyval \<Rightarrow> exn + pyval" where
  "query_azure_endpoint E data =
     (let headers = [(''Authorization'', ''Bearer '' @ AZURE_API_KEY E),
                     (''Content-Type'', ''application/json'')]
      in case post E AZURE_ENDPOINT data headers of
           Inl e \<Rightarrow> Inl e
         | Inr response \<Rightarrow>
             if \<not> is_success response then Inl HTTPStatusError
             else json response)"

definition llm_input :: "env \<Rightarrow> pyval \<Rightarrow> pyval" where
  "llm_input E q =
     PDict [(''input_data'', PDict
       [(''input_string'', PList
           [PDict [(''role'', PStr ''system''), (''content'', PStr (INSTRUCTIONS E))],
            PDict [(''role'', PStr ''user''), (''content'', q)]]),
        (''parameters'', PDict
           [(''temperature'', PFloat 7 (-1)), (''max_tokens'', PInt 2000)])])]"

definition TRANSPORT_FALLBACK :: string where
  "TRANSPORT_FALLBACK =
     ''I'' @ [CHR 0x27] @ ''m sorry, I'' @ [CHR 0x27] @
     ''m having trouble accessing the necessary information right now. Please try again later.''"

definition TECHNICAL_FALLBACK :: string where
  "TECHNICAL_FALLBACK =
     ''I apologize, but I'' @ [CHR 0x27] @
     ''m experiencing technical difficulties. Please try again later.''"

text \<open>
  The statements of \<^verbatim>\<open>process_message\<close> up to the construction of \<^verbatim>\<open>log_entry\<close>: the
  first exception ends them. The result is the answer and the log entry.
\<close>

definition build_log_entry :: "env \<Rightarrow> dict \<Rightarrow> exn + (pyval \<times> dict)" where
  "build_log_entry E data =
     (case getitem data ''question'' of Inl e \<Rightarrow> Inl e | Inr q \<Rightarrow>
      case query_azure_endpoint E (llm_input E q) of Inl e \<Rightarrow> Inl e | Inr llm_response \<Rightarrow>
      case py_get llm_response ''output'' (PStr '''') of Inl e \<Rightarrow> Inl e | Inr full_response \<Rightarrow>
      case getitem data ''userId'' of Inl e \<Rightarrow> Inl e | Inr uid \<Rightarrow>
      case getitem data ''userName'' of Inl e \<Rightarrow> Inl e | Inr uname \<Rightarrow>
      case getitem data ''conversationId'' of Inl e \<Rightarrow> Inl e | Inr cid \<Rightarrow>
      case getitem data ''messageId'' of Inl e \<Rightarrow> Inl e | Inr mid \<Rightarrow>
      case getitem data ''question'' of Inl e \<Rightarrow> Inl e | Inr q2 \<Rightarrow>
      case getitem data ''questionTimestamp'' of Inl e \<Rightarrow> Inl e | Inr qts \<Rightarrow>
        Inr (full_response,
             [(''userId'', uid),
              (''userName'', uname),
              (''conversationId'', cid),
              (''messageId'', mid),
              (''question'', q2),
              (''answer'', full_response),
              (''questionTimestamp'', qts),
              (''answerTimestamp'', PStr (isoformat (utcnow E 0))),
              (''feedback'', PNone),
              (''logTimestamp'', PDatetime (utcnow E 1))]))"

text \<open>The body of the \<^verbatim>\<open>try\<close>: the value it yields, or the exception that ends it.\<close>

definition try_body :: "env \<Rightarrow> world \<Rightarrow> dict \<Rightarrow> (exn + pyval) \<times> world" where
  "try_body E w data =
     (case build_log_entry E data of
        Inl e \<Rightarrow> (Inl e, w)
      | Inr (full_response, log_entry) \<Rightarrow>
          (case insert_one E w log_entry of
             (Inl e, w') \<Rightarrow> (Inl e, w')
           | (Inr u, w') \<Rightarrow> (Inr full_response, w')))"

text \<open>
  What a caller that exhausts the generator sees: the chunks yielded, and the exception
  that left the generator, if one did.
\<close>

record generated =
  chunks :: "pyval list"
  raised :: "exn option"

definition process_message :: "env \<Rightarrow> world \<Rightarrow> dict \<Rightarrow> generated \<times> world" where
  "process_message E w data =
     (case try_body E w data of
        (Inr full_response, w') \<Rightarrow> (\<lparr>chunks = [full_response], raised = None\<rparr>, w')
      | (Inl e, w') \<Rightarrow>
          if isinstance_HTTPError e then
            (\<lparr>chunks = [PStr TRANSPORT_FALLBACK], raised = None\<rparr>,
             logger (LogError ''HTTP error during Azure endpoint query: '' e) w')
          else if isinstance_Exception e then
            (\<lparr>chunks = [PStr TECHNICAL_FALLBACK], raised = None\<rparr>,
             logger (LogError ''Error in process_message: '' e) w')
          else (\<lparr>chunks = [], raised = Some e\<rparr>, w'))"

section \<open>The feedback path\<close>

definition save_feedback :: "env \<Rightarrow> world \<Rightarrow> dict \<Rightarrow> (exn + unit) \<times> world" where
  "save_feedback E w data =
     (case getitem data ''messageId'' of Inl e \<Rightarrow> (Inl e, w) | Inr mid \<Rightarrow>
      case getitem data ''feedback'' of Inl e \<Rightarrow> (Inl e, w) | Inr fb \<Rightarrow>
      case getitem data ''questionTimestamp'' of Inl e \<Rightarrow> (Inl e, w) | Inr qts \<Rightarrow>
      case getitem data ''answerTimestamp'' of Inl e \<Rightarrow> (Inl e, w) | Inr ats \<Rightarrow>
      case update_one E w [(''messageId'', mid)]
             [(''feedback'', fb), (''questionTimestamp'', qts), (''answerTimestamp'', ats)] of
        (Inl e, w') \<Rightarrow> (Inl e, w')
      | (Inr result, w') \<Rightarrow>
          if modified_count result = 0 then
            (case getitem data ''messageId'' of Inl e \<Rightarrow> (Inl e, w') | Inr mid' \<Rightarrow>
               insert_one E
                 (logger (LogWarning ''No document found for messageId: '' mid'
                            ''. Creating new entry.'') w')
                 data)
          else (Inr (), w'))"

datatype 'a reply =
    Returned 'a
  | HTTPException nat string
  | Propagated exn

definition feedback_endpoint :: "env \<Rightarrow> world \<Rightarrow> FeedbackRequest \<Rightarrow> pyval reply \<times> world" where
  "feedback_endpoint E w request =
     (case save_feedback E w (FeedbackRequest_dict request) of
        (Inr u, w') \<Rightarrow>
          (Returned (PDict [(''message'', PStr ''Feedback recorded successfully'')]), w')
      | (Inl e, w') \<Rightarrow>
          if isinstance_Exception e then
            (HTTPException 500 ''Error saving feedback'',
             logger (LogError ''Error saving feedback: '' e) w')
          else (Propagated e, w'))"

section \<open>Predicates and scenarios\<close>


definition t_now :: datetime where
  "t_now = \<lparr>year = 2026, month = 11, day = 4, hour = 9, minute = 30, second = 5,
            microsecond = 0\<rparr>"

definition t_client :: datetime where
  "t_client = \<lparr>year = 2030, month = 1, day = 1, hour = 0, minute = 0, second = 0,
               microsecond = 0\<rparr>"

definition request_m1 :: ChatRequest where
  "request_m1 = \<lparr>question = ''What is X?'', userId = ''u1'', messageId = ''m1'',
                 userName = ''Ann'', conversationId = ''c1'', questionTimestamp = t_client\<rparr>"

definition feedback_m1 :: FeedbackRequest where
  "feedback_m1 = \<lparr>fb_question = ''What is X?'', fb_answer = ''X is Y'', fb_userId = ''u1'',
                  fb_messageId = ''m1'', fb_conversationId = ''c1'', fb_feedback = ''helpful'',
                  fb_questionTimestamp = t_client, fb_answerTimestamp = t_now\<rparr>"

definition env_ok :: env where
  "env_ok = \<lparr>INSTRUCTIONS = ''You are Najd.'', AZURE_API_KEY = ''key'',
     post = (\<lambda>url body headers.
        Inr \<lparr>is_success = True, json = Inr (PDict [(''output'', PStr ''X is Y'')])\<rparr>),
     utcnow = (\<lambda>n. t_now), insert_one_fault = None, update_one_fault = None\<rparr>"

definition env_timeout :: env where
  "env_timeout = env_ok\<lparr>post := (\<lambda>url body headers. Inl TimeoutException)\<rparr>"

definition env_bad_json :: env where
  "env_bad_json = env_ok\<lparr>post := (\<lambda>url body headers.
      Inr \<lparr>is_success = True, json = Inl JSONDecodeError\<rparr>)\<rparr>"

definition env_no_output :: env where
  "env_no_output = env_ok\<lparr>post := (\<lambda>url body headers.
      Inr \<lparr>is_success = True, json = Inr (PDict [(''id'', PStr ''r1'')])\<rparr>)\<rparr>"


definition env_store_down :: env where
  "env_store_down = env_ok\<lparr>insert_one_fault := Some PyMongoError\<rparr>"

definition env_update_down :: env where
  "env_update_down = env_ok\<lparr>update_one_fault := Some PyMongoError\<rparr>"

definition world_empty :: world where
  "world_empty = \<lparr>collection = [], logged = []\<rparr>"

definition world_logged :: world where
  "world_logged = snd (process_message env_ok world_empty (ChatRequest_dict request_m1))"

definition world_reconciled :: world where
  "world_reconciled =
     \<lparr>collection =
        [[(''userId'', PStr ''u1''),
          (''userName'', PStr ''Ann''),
          (''conversationId'', PStr ''c1''),
          (''messageId'', PStr ''m1''),
          (''question'', PStr ''What is X?''),
          (''answer'', PStr ''X is Y''),
          (''questionTimestamp'', PDatetime t_client),
          (''answerTimestamp'', PDatetime t_now),
          (''feedback'', PStr ''helpful''),
          (''logTimestamp'', PDatetime t_now)]],
      logged = []\<rparr>"

definition count_messageId :: "string \<Rightarrow> world \<Rightarrow> nat" where
  "count_messageId m w =
     length (filter (\<lambda>doc. map_of doc ''messageId'' = Some (PStr m)) (collection w))"

section \<open>Auxiliary facts\<close>

lemma getitem_ChatRequest_dict:
  "getitem (ChatRequest_dict r) ''question'' = Inr (PStr (question r))"
  "getitem (ChatRequest_dict r) ''userId'' = Inr (PStr (userId r))"
  "getitem (ChatRequest_dict r) ''userName'' = Inr (PStr (userName r))"
  "getitem (ChatRequest_dict r) ''conversationId'' = Inr (PStr (conversationId r))"
  "getitem (ChatRequest_dict r) ''messageId'' = Inr (PStr (messageId r))"
  "getitem (ChatRequest_dict r) ''questionTimestamp'' = Inr (PDatetime (questionTimestamp r))"
  by (simp_all add: getitem_def ChatRequest_dict_def)

lemma getitem_FeedbackRequest_dict:
  "getitem (FeedbackRequest_dict r) ''messageId'' = Inr (PStr (fb_messageId r))"
  "getitem (FeedbackRequest_dict r) ''feedback'' = Inr (PStr (fb_feedback r))"
  "getitem (FeedbackRequest_dict r) ''questionTimestamp'' = Inr (PDatetime (fb_questionTimestamp r))"
  "getitem (FeedbackRequest_dict r) ''answerTimestamp'' = Inr (PDatetime (fb_answerTimestamp r))"
  by (simp_all add: getitem_def FeedbackRequest_dict_def)

text \<open>The body of the \<^verbatim>\<open>try\<close> on a validated request: three places can end it.\<close>

lemma try_body_ChatRequest:
  "try_body E w (ChatRequest_dict r) =
     (case query_azure_endpoint E (llm_input E (PStr (question r))) of
        Inl e \<Rightarrow> (Inl e, w)
      | Inr resp \<Rightarrow>
          (case py_get resp ''output'' (PStr []) of
             Inl e \<Rightarrow> (Inl e, w)
           | Inr a \<Rightarrow>
               (case insert_one_fault E of
                  Some e \<Rightarrow> (Inl e, w)
                | None \<Rightarrow>
                    (Inr a,
                     w\<lparr>collection := collection w @
                        [[(''userId'', PStr (userId r)),
                          (''userName'', PStr (userName r)),
                          (''conversationId'', PStr (conversationId r)),
                          (''messageId'', PStr (messageId r)),
                          (''question'', PStr (question r)),
                          (''answer'', a),
                          (''questionTimestamp'', PDatetime (questionTimestamp r)),
                          (''answerTimestamp'', PStr (isoformat (utcnow E 0))),
                          (''feedback'', PNone),
                          (''logTimestamp'', PDatetime (utcnow E 1))]]\<rparr>))))"
  by (simp add: try_body_def build_log_entry_def getitem_ChatRequest_dict insert_one_def
           split: sum.splits option.splits)


lemma HTTPError_is_Exception: "isinstance_HTTPError e \<Longrightarrow> isinstance_Exception e"
  by (cases e) simp_all

lemma fallbacks_differ: "TRANSPORT_FALLBACK \<noteq> TECHNICAL_FALLBACK"
  by (simp add: TRANSPORT_FALLBACK_def TECHNICAL_FALLBACK_def)

lemma query_env_ok:
  "query_azure_endpoint env_ok q = Inr (PDict [(''output'', PStr ''X is Y'')])"
  by (simp add: query_azure_endpoint_def env_ok_def)

lemma query_env_timeout: "query_azure_endpoint env_timeout q = Inl TimeoutException"
  by (simp add: query_azure_endpoint_def env_timeout_def env_ok_def)

lemma query_env_bad_json: "query_azure_endpoint env_bad_json q = Inl JSONDecodeError"
  by (simp add: query_azure_endpoint_def env_bad_json_def env_ok_def)

lemma query_env_no_output:
  "query_azure_endpoint env_no_output q = Inr (PDict [(''id'', PStr ''r1'')])"
  by (simp add: query_azure_endpoint_def env_no_output_def env_ok_def)


lemma query_env_store_down:
  "query_azure_endpoint env_store_down q = Inr (PDict [(''output'', PStr ''X is Y'')])"
  by (simp add: query_azure_endpoint_def env_store_down_def env_ok_def)

section \<open>The chat path: claims\<close>

text \<open>
  Claim C1. The claim: when the provider call fails with a transport/HTTP error, the
  pipeline emits the transport fallback and the store still receives one log-entry insert
  whose answer is that fallback. The code yields the fallback from the first
  \<^verbatim>\<open>except\<close> branch, which holds no insert: the collection is left as it was. What
  holds is stated here: the single chunk is the transport fallback, nothing is raised,
  and the collection is unchanged.
\<close>

theorem process_message_transport_failure:
  assumes "query_azure_endpoint E (llm_input E (PStr (question r))) = Inl e"
    and "isinstance_HTTPError e"
  shows "fst (process_message E w (ChatRequest_dict r)) =
           \<lparr>chunks = [PStr TRANSPORT_FALLBACK], raised = None\<rparr>
         \<and> collection (snd (process_message E w (ChatRequest_dict r))) = collection w"
  using assms by (simp add: process_message_def try_body_ChatRequest logger_def)

text \<open>The theorem at a provider call that times out.\<close>

theorem process_message_transport_failure_witness:
  "isinstance_HTTPError TimeoutException
   \<and> fst (process_message env_timeout world_empty (ChatRequest_dict request_m1)) =
       \<lparr>chunks = [PStr TRANSPORT_FALLBACK], raised = None\<rparr>
   \<and> collection (snd (process_message env_timeout world_empty (ChatRequest_dict request_m1)))
       = collection world_empty"
  using process_message_transport_failure [OF query_env_timeout, where r = request_m1 and w = world_empty]
  by simp

text \<open>
  The claim as stated fails on a timeout with a healthy store: the fallback is emitted
  and the collection, empty before, is still empty.
\<close>

theorem transport_failure_not_logged:
  "chunks (fst (process_message env_timeout world_empty (ChatRequest_dict request_m1)))
     = [PStr TRANSPORT_FALLBACK]
   \<and> insert_one_fault env_timeout = None
   \<and> collection (snd (process_message env_timeout world_empty (ChatRequest_dict request_m1)))
     = []"
proof -
  have "insert_one_fault env_timeout = None"
    by (simp add: env_timeout_def env_ok_def)
  moreover have "process_message env_timeout world_empty (ChatRequest_dict request_m1) =
      (\<lparr>chunks = [PStr TRANSPORT_FALLBACK], raised = None\<rparr>,
       logger (LogError ''HTTP error during Azure endpoint query: '' TimeoutException)
         world_empty)"
    by (simp add: process_message_def try_body_ChatRequest query_env_timeout)
  ultimately show ?thesis by (simp add: logger_def world_empty_def)
qed

text \<open>
  Claim C2. The claim: when the provider call succeeds, a failing log-entry insert is
  swallowed and the caller still receives the provider's answer. In the code the insert
  is awaited inside the \<^verbatim>\<open>try\<close>, before the \<^verbatim>\<open>yield\<close>: its exception is caught and
  logged and never reaches the caller, but the answer is not yielded. The caller
  receives the fallback chosen by the class of the exception, the collection is
  unchanged and one error record is logged.
\<close>

theorem process_message_insert_failure:
  assumes "query_azure_endpoint E (llm_input E (PStr (question r))) = Inr (PDict d)"
    and "insert_one_fault E = Some e"
    and "isinstance_Exception e"
  shows "process_message E w (ChatRequest_dict r) =
           (\<lparr>chunks = [PStr (if isinstance_HTTPError e then TRANSPORT_FALLBACK
                              else TECHNICAL_FALLBACK)],
             raised = None\<rparr>,
            w\<lparr>logged := logged w @
                [LogError (if isinstance_HTTPError e
                           then ''HTTP error during Azure endpoint query: ''
                           else ''Error in process_message: '') e]\<rparr>)"
  using assms by (simp add: process_message_def try_body_ChatRequest logger_def)

text \<open>The theorem at a store whose insert raises a driver error.\<close>

theorem process_message_insert_failure_witness:
  "insert_one_fault env_store_down = Some PyMongoError
   \<and> isinstance_Exception PyMongoError
   \<and> process_message env_store_down world_empty (ChatRequest_dict request_m1) =
       (\<lparr>chunks = [PStr TECHNICAL_FALLBACK], raised = None\<rparr>,
        \<lparr>collection = [],
          logged = [LogError ''Error in process_message: '' PyMongoError]\<rparr>)"
proof -
  have f: "insert_one_fault env_store_down = Some PyMongoError"
    by (simp add: env_store_down_def)
  have x: "isinstance_Exception PyMongoError" by simp
  from process_message_insert_failure
         [OF query_env_store_down f x, where r = request_m1 and w = world_empty]
  show ?thesis using f by (simp add: world_empty_def)
qed

text \<open>
  The claim as stated fails: the provider answers \<open>X is Y\<close>, the insert raises, and the
  caller receives the technical-difficulties string.
\<close>

theorem insert_failure_replaces_answer:
  "query_azure_endpoint env_store_down (llm_input env_store_down (PStr (question request_m1)))
     = Inr (PDict [(''output'', PStr ''X is Y'')])
   \<and> chunks (fst (process_message env_store_down world_empty (ChatRequest_dict request_m1)))
     = [PStr TECHNICAL_FALLBACK]
   \<and> chunks (fst (process_message env_store_down world_empty (ChatRequest_dict request_m1)))
     \<noteq> [PStr ''X is Y'']"
proof -
  have f: "insert_one_fault env_store_down = Some PyMongoError"
    by (simp add: env_store_down_def)
  have "chunks (fst (process_message env_store_down world_empty (ChatRequest_dict request_m1)))
          = [PStr TECHNICAL_FALLBACK]"
    by (simp add: process_message_def try_body_ChatRequest query_env_store_down f)
  moreover have "TECHNICAL_FALLBACK \<noteq> ''X is Y''"
    by (simp add: TECHNICAL_FALLBACK_def)
  ultimately show ?thesis by (simp add: query_env_store_down)
qed




text \<open>
  Claim C7. When the provider call and the insert succeed, the emitted answer is the
  value of the \<open>output\<close> field of the provider's response, unchanged.
\<close>

theorem process_message_answer_verbatim:
  assumes "query_azure_endpoint E (llm_input E (PStr (question r))) = Inr (PDict d)"
    and "map_of d ''output'' = Some v"
    and "insert_one_fault E = None"
  shows "fst (process_message E w (ChatRequest_dict r)) = \<lparr>chunks = [v], raised = None\<rparr>"
  using assms by (simp add: process_message_def try_body_ChatRequest)

text \<open>The theorem in the healthy environment.\<close>

theorem process_message_answer_verbatim_witness:
  "map_of [(''output'', PStr ''X is Y'')] ''output'' = Some (PStr ''X is Y'')
   \<and> insert_one_fault env_ok = None
   \<and> fst (process_message env_ok world_empty (ChatRequest_dict request_m1)) =
       \<lparr>chunks = [PStr ''X is Y''], raised = None\<rparr>"
proof -
  have o: "map_of [(''output'', PStr ''X is Y'')] ''output'' = Some (PStr ''X is Y'')"
    by simp
  have f: "insert_one_fault env_ok = None" by (simp add: env_ok_def)
  from process_message_answer_verbatim [OF query_env_ok o f, where r = request_m1 and w = world_empty]
  show ?thesis using f by simp
qed

text \<open>
  Claim C8. When the provider call fails, the emitted answer is one of two fixed and
  distinct strings: the first for an \<^verbatim>\<open>httpx.HTTPError\<close>, the second for any other
  exception.
\<close>

theorem process_message_fallback_by_category:
  assumes "query_azure_endpoint E (llm_input E (PStr (question r))) = Inl e"
    and "isinstance_Exception e"
  shows "chunks (fst (process_message E w (ChatRequest_dict r))) =
           [PStr (if isinstance_HTTPError e then TRANSPORT_FALLBACK else TECHNICAL_FALLBACK)]
         \<and> TRANSPORT_FALLBACK \<noteq> TECHNICAL_FALLBACK"
  using assms by (simp add: process_message_def try_body_ChatRequest fallbacks_differ)

text \<open>The theorem at a timeout and at a body that does not decode.\<close>

theorem process_message_fallback_by_category_witness:
  "chunks (fst (process_message env_timeout world_empty (ChatRequest_dict request_m1))) =
     [PStr TRANSPORT_FALLBACK]
   \<and> chunks (fst (process_message env_bad_json world_empty (ChatRequest_dict request_m1))) =
     [PStr TECHNICAL_FALLBACK]"
proof -
  have a: "isinstance_Exception TimeoutException" and b: "isinstance_Exception JSONDecodeError"
    by simp_all
  from process_message_fallback_by_category [OF query_env_timeout a, where r = request_m1 and w = world_empty]
       process_message_fallback_by_category [OF query_env_bad_json b, where r = request_m1 and w = world_empty]
  show ?thesis by simp
qed

text \<open>
  Claim C9. The claim: every successful call produces exactly one log-entry insert whose
  feedback is null and whose answerTimestamp is no earlier than the request's
  questionTimestamp. The first two parts hold: the collection grows by exactly the entry
  below, with \<open>feedback\<close> null. Its \<open>answerTimestamp\<close> is the ISO text of the server's
  clock; the code never compares it with \<open>questionTimestamp\<close>, which the client supplies.
\<close>

theorem process_message_logs_once:
  assumes "query_azure_endpoint E (llm_input E (PStr (question r))) = Inr resp"
    and "py_get resp ''output'' (PStr []) = Inr a"
    and "insert_one_fault E = None"
  shows "collection (snd (process_message E w (ChatRequest_dict r))) =
           collection w @
             [[(''userId'', PStr (userId r)),
               (''userName'', PStr (userName r)),
               (''conversationId'', PStr (conversationId r)),
               (''messageId'', PStr (messageId r)),
               (''question'', PStr (question r)),
               (''answer'', a),
               (''questionTimestamp'', PDatetime (questionTimestamp r)),
               (''answerTimestamp'', PStr (isoformat (utcnow E 0))),
               (''feedback'', PNone),
               (''logTimestamp'', PDatetime (utcnow E 1))]]"
  using assms by (simp add: process_message_def try_body_ChatRequest)

text \<open>The theorem in the healthy environment.\<close>

theorem process_message_logs_once_witness:
  "py_get (PDict [(''output'', PStr ''X is Y'')]) ''output'' (PStr []) = Inr (PStr ''X is Y'')
   \<and> insert_one_fault env_ok = None
   \<and> collection (snd (process_message env_ok world_empty (ChatRequest_dict request_m1))) =
       [[(''userId'', PStr ''u1''),
         (''userName'', PStr ''Ann''),
         (''conversationId'', PStr ''c1''),
         (''messageId'', PStr ''m1''),
         (''question'', PStr ''What is X?''),
         (''answer'', PStr ''X is Y''),
         (''questionTimestamp'', PDatetime t_client),
         (''answerTimestamp'', PStr ''2026-11-04T09:30:05''),
         (''feedback'', PNone),
         (''logTimestamp'', PDatetime t_now)]]"
proof -
  have g: "py_get (PDict [(''output'', PStr ''X is Y'')]) ''output'' (PStr []) =
             Inr (PStr ''X is Y'')"
    by simp
  have f: "insert_one_fault env_ok = None" by (simp add: env_ok_def)
  have t: "isoformat (utcnow env_ok 0) = ''2026-11-04T09:30:05''"
    by (simp add: env_ok_def isoformat_def t_now_def zpad2_def zpad4_def digit_def)
  have u: "utcnow env_ok 1 = t_now" by (simp add: env_ok_def)
  from process_message_logs_once
         [OF query_env_ok g f, where r = request_m1 and w = world_empty]
  show ?thesis using g f t u by (simp add: world_empty_def request_m1_def)
qed

text \<open>
  The claim as stated fails for a request whose questionTimestamp is ahead of the
  server's clock: the call succeeds, and the one entry logged carries an answerTimestamp
  earlier than its questionTimestamp.
\<close>

theorem answer_timestamp_before_question_timestamp:
  "chunks (fst (process_message env_ok world_empty (ChatRequest_dict request_m1))) =
     [PStr ''X is Y'']
   \<and> map (\<lambda>doc. (map_of doc ''questionTimestamp'', map_of doc ''answerTimestamp''))
        (collection (snd (process_message env_ok world_empty (ChatRequest_dict request_m1)))) =
     [(Some (PDatetime t_client), Some (PStr (isoformat t_now)))]
   \<and> datetime_less t_now t_client"
proof -
  have f: "insert_one_fault env_ok = None" and u: "utcnow env_ok 0 = t_now"
    by (simp_all add: env_ok_def)
  have "datetime_less t_now t_client"
    by (simp add: datetime_less_def t_now_def t_client_def)
  then show ?thesis
    by (simp add: process_message_def try_body_ChatRequest query_env_ok f u
          world_empty_def request_m1_def)
qed

text \<open>
  Claim C10. When the provider's JSON object has no \<open>output\<close> key, the empty string is
  the answer: it is emitted, the entry logged has the empty string as \<open>answer\<close>, and no
  error is logged.
\<close>

theorem process_message_missing_output:
  assumes "query_azure_endpoint E (llm_input E (PStr (question r))) = Inr (PDict d)"
    and "map_of d ''output'' = None"
    and "insert_one_fault E = None"
  shows "fst (process_message E w (ChatRequest_dict r)) =
           \<lparr>chunks = [PStr []], raised = None\<rparr>
         \<and> butlast (collection (snd (process_message E w (ChatRequest_dict r)))) = collection w
         \<and> map_of (last (collection (snd (process_message E w (ChatRequest_dict r)))))
             ''answer'' = Some (PStr [])
         \<and> logged (snd (process_message E w (ChatRequest_dict r))) = logged w"
  using assms by (simp add: process_message_def try_body_ChatRequest)

text \<open>The theorem at a response without an \<open>output\<close> field.\<close>

theorem process_message_missing_output_witness:
  "map_of [(''id'', PStr ''r1'')] ''output'' = None
   \<and> insert_one_fault env_no_output = None
   \<and> fst (process_message env_no_output world_empty (ChatRequest_dict request_m1)) =
       \<lparr>chunks = [PStr []], raised = None\<rparr>
   \<and> map_of (last (collection
         (snd (process_message env_no_output world_empty (ChatRequest_dict request_m1)))))
       ''answer'' = Some (PStr [])"
proof -
  have o: "map_of [(''id'', PStr ''r1'')] ''output'' = None" by simp
  have f: "insert_one_fault env_no_output = None"
    by (simp add: env_no_output_def env_ok_def)
  from process_message_missing_output
         [OF query_env_no_output o f, where r = request_m1 and w = world_empty]
  show ?thesis using f by simp
qed

section \<open>The feedback path: claims\<close>

lemma save_feedback_FeedbackRequest:
  "save_feedback E w (FeedbackRequest_dict r) =
     (case update_one_fault E of
        Some e \<Rightarrow> (Inl e, w)
      | None \<Rightarrow>
          (case update_first [(''messageId'', PStr (fb_messageId r))]
                  [(''feedback'', PStr (fb_feedback r)),
                   (''questionTimestamp'', PDatetime (fb_questionTimestamp r)),
                   (''answerTimestamp'', PDatetime (fb_answerTimestamp r))]
                  (collection w) of
             (result, ds) \<Rightarrow>
               if modified_count result = 0 then
                 insert_one E
                   (logger (LogWarning ''No document found for messageId: ''
                              (PStr (fb_messageId r)) ''. Creating new entry.'')
                      (w\<lparr>collection := ds\<rparr>))
                   (FeedbackRequest_dict r)
               else (Inr (), w\<lparr>collection := ds\<rparr>)))"
  by (simp add: save_feedback_def getitem_FeedbackRequest_dict update_one_def
           split: option.splits prod.splits)

lemma world_logged_eq:
  "world_logged =
     \<lparr>collection =
        [[(''userId'', PStr ''u1''),
          (''userName'', PStr ''Ann''),
          (''conversationId'', PStr ''c1''),
          (''messageId'', PStr ''m1''),
          (''question'', PStr ''What is X?''),
          (''answer'', PStr ''X is Y''),
          (''questionTimestamp'', PDatetime t_client),
          (''answerTimestamp'', PStr ''2026-11-04T09:30:05''),
          (''feedback'', PNone),
          (''logTimestamp'', PDatetime t_now)]],
      logged = []\<rparr>"
proof -
  have f: "insert_one_fault env_ok = None" by (simp add: env_ok_def)
  have t: "isoformat (utcnow env_ok 0) = ''2026-11-04T09:30:05''"
    by (simp add: env_ok_def isoformat_def t_now_def zpad2_def zpad4_def digit_def)
  have u: "utcnow env_ok (Suc 0) = t_now" by (simp add: env_ok_def)
  show ?thesis
    by (simp add: world_logged_def process_message_def try_body_ChatRequest query_env_ok
          f t u world_empty_def request_m1_def)
qed

lemma feedback_on_reconciled:
  "save_feedback env_ok world_reconciled (FeedbackRequest_dict feedback_m1) =
     (Inr (),
      \<lparr>collection = collection world_reconciled @ [FeedbackRequest_dict feedback_m1],
        logged = [LogWarning ''No document found for messageId: '' (PStr ''m1'')
                    ''. Creating new entry.'']\<rparr>)"
proof -
  have f: "insert_one_fault env_ok = None" "update_one_fault env_ok = None"
    by (simp_all add: env_ok_def)
  show ?thesis
    by (simp add: save_feedback_FeedbackRequest f insert_one_def logger_def
          world_reconciled_def feedback_m1_def matches_def apply_set_def)
qed

lemma feedback_on_logged:
  "save_feedback env_ok world_logged (FeedbackRequest_dict feedback_m1) =
     (Inr (), world_reconciled)"
proof -
  have f: "insert_one_fault env_ok = None" "update_one_fault env_ok = None"
    by (simp_all add: env_ok_def)
  show ?thesis
    by (simp add: save_feedback_FeedbackRequest f world_logged_eq
          world_reconciled_def feedback_m1_def matches_def apply_set_def)
qed

text \<open>
  Claim C3. The claim: recording the same feedback twice for a message that has a log
  entry updates that entry both times and creates no duplicate. The code tests
  \<open>modified_count\<close>, not \<open>matched_count\<close>: the second call selects the entry, changes
  nothing in it, reads a count of zero and takes the branch whose own warning says
  that no document was found. After the first call there is one record for \<open>m1\<close>,
  after the second there are two.
\<close>

theorem save_feedback_twice_duplicates:
  "count_messageId ''m1'' world_logged = 1
   \<and> count_messageId ''m1''
       (snd (save_feedback env_ok world_logged (FeedbackRequest_dict feedback_m1))) = 1
   \<and> count_messageId ''m1''
       (snd (save_feedback env_ok
          (snd (save_feedback env_ok world_logged (FeedbackRequest_dict feedback_m1)))
          (FeedbackRequest_dict feedback_m1))) = 2"
  by (simp add: feedback_on_logged feedback_on_reconciled)
     (simp add: count_messageId_def world_logged_eq world_reconciled_def
        FeedbackRequest_dict_def feedback_m1_def)

text \<open>
  Claim C5. The claim: in a store with exactly one log entry for a message, recording
  feedback updates that entry and inserts nothing. On an entry that already holds the
  feedback and the two timestamps of the request, the update matches one document and
  modifies none, and the code inserts the request as a second record.
\<close>

theorem save_feedback_unchanged_entry_inserts:
  "count_messageId ''m1'' world_reconciled = 1
   \<and> fst (update_first [(''messageId'', PStr ''m1'')]
            [(''feedback'', PStr ''helpful''),
             (''questionTimestamp'', PDatetime t_client),
             (''answerTimestamp'', PDatetime t_now)]
            (collection world_reconciled)) = \<lparr>matched_count = 1, modified_count = 0\<rparr>
   \<and> collection (snd (save_feedback env_ok world_reconciled (FeedbackRequest_dict feedback_m1)))
       = collection world_reconciled @ [FeedbackRequest_dict feedback_m1]"
  by (simp add: feedback_on_reconciled)
     (simp add: count_messageId_def world_reconciled_def matches_def apply_set_def)

text \<open>
  Claim C4. The claim: an error reaches the caller only when both the update and the
  fallback insert fail, and a failure of the update alone does not. In the code
  nothing catches the exception of \<open>update_one\<close>: it leaves \<open>save_feedback\<close> before
  any insert, and the endpoint turns it into status 500. The endpoint fails exactly when
  the update raises, or the update modifies nothing and the insert raises; when the
  update raises, the collection is unchanged.
\<close>

theorem feedback_endpoint_error_iff:
  assumes "\<And>e. update_one_fault E = Some e \<Longrightarrow> isinstance_Exception e"
    and "\<And>e. insert_one_fault E = Some e \<Longrightarrow> isinstance_Exception e"
  shows "fst (feedback_endpoint E w r) =
           (if update_one_fault E \<noteq> None
               \<or> (modified_count (fst (update_first [(''messageId'', PStr (fb_messageId r))]
                      [(''feedback'', PStr (fb_feedback r)),
                       (''questionTimestamp'', PDatetime (fb_questionTimestamp r)),
                       (''answerTimestamp'', PDatetime (fb_answerTimestamp r))]
                      (collection w))) = 0
                  \<and> insert_one_fault E \<noteq> None)
            then HTTPException 500 ''Error saving feedback''
            else Returned (PDict [(''message'', PStr ''Feedback recorded successfully'')]))
         \<and> (update_one_fault E \<noteq> None \<longrightarrow>
              collection (snd (feedback_endpoint E w r)) = collection w)"
  using assms
  by (auto simp: feedback_endpoint_def save_feedback_FeedbackRequest insert_one_def logger_def
           split: option.splits prod.splits)

text \<open>The theorem at a store whose update raises.\<close>

theorem feedback_endpoint_error_iff_witness:
  "fst (feedback_endpoint env_update_down world_logged feedback_m1) =
     HTTPException 500 ''Error saving feedback''
   \<and> collection (snd (feedback_endpoint env_update_down world_logged feedback_m1)) =
       collection world_logged"
proof -
  have u: "update_one_fault env_update_down = Some PyMongoError"
    and i: "insert_one_fault env_update_down = None"
    by (simp_all add: env_update_down_def env_ok_def)
  have "fst (feedback_endpoint env_update_down world_logged feedback_m1) =
          (if update_one_fault env_update_down \<noteq> None
              \<or> (modified_count (fst (update_first [(''messageId'', PStr (fb_messageId feedback_m1))]
                     [(''feedback'', PStr (fb_feedback feedback_m1)),
                      (''questionTimestamp'', PDatetime (fb_questionTimestamp feedback_m1)),
                      (''answerTimestamp'', PDatetime (fb_answerTimestamp feedback_m1))]
                     (collection world_logged))) = 0
                 \<and> insert_one_fault env_update_down \<noteq> None)
           then HTTPException 500 ''Error saving feedback''
           else Returned (PDict [(''message'', PStr ''Feedback recorded successfully'')]))
        \<and> (update_one_fault env_update_down \<noteq> None \<longrightarrow>
             collection (snd (feedback_endpoint env_update_down world_logged feedback_m1)) =
               collection world_logged)"
  proof (rule feedback_endpoint_error_iff)
    fix e
    assume "update_one_fault env_update_down = Some e"
    with u have "e = PyMongoError" by simp
    then show "isinstance_Exception e" by simp
  next
    fix e
    assume "insert_one_fault env_update_down = Some e"
    with i show "isinstance_Exception e" by simp
  qed
  then show ?thesis using u by simp
qed

text \<open>
  The claim as stated fails: the update raises, the insert would have worked, and the
  caller receives status 500.
\<close>

theorem update_failure_alone_surfaces:
  "update_one_fault env_update_down = Some PyMongoError
   \<and> insert_one_fault env_update_down = None
   \<and> fst (feedback_endpoint env_update_down world_logged feedback_m1) =
       HTTPException 500 ''Error saving feedback''"
proof -
  have u: "update_one_fault env_update_down = Some PyMongoError"
    and i: "insert_one_fault env_update_down = None"
    by (simp_all add: env_update_down_def env_ok_def)
  show ?thesis
    by (simp add: feedback_endpoint_def save_feedback_FeedbackRequest u i)
qed

end
